theory Spec2Isabelle
  imports Complex_Main
begin

section \<open>Data model\<close>

text \<open>
  The backend keeps its data in relational tables reached through an ORM. A table whose
  rows get a key from the database on insertion (orders, engagements) is a list of rows
  carrying their \<open>id\<close>; a table that is only looked up and updated by a key supplied from
  outside (products, by product id; rankings, by the unique (user, category) pair) is a
  map. Counts (stock, quantity) are \<open>int\<close>, prices and scores are \<open>real\<close>. The
  arithmetic is exact where a statement only repeats the expression the code evaluates;
  where a statement depends on a sum cancelling (the like and unlike round trip), the
  sum is rounded as the engine rounds it, see \<open>roundDouble\<close>. Timestamps, names, images and
  the joined user rows are not read by any operation below and are left out. Every
  operation takes the database and returns its outcome with the database it leaves
  behind: \<open>Inl\<close> of the error thrown, or \<open>Inr\<close> of the value returned.
\<close>

datatype OrderStatus = pending | processing | shipped | completed | canceled

datatype error =
    ProductNotFound                      \<comment> \<open>'Product not found'\<close>
  | ProductNotAvailable                  \<comment> \<open>'Product is not available for purchase'\<close>
  | NotEnoughStock                       \<comment> \<open>'Not enough stock available'\<close>
  | PriceMismatch                        \<comment> \<open>'Price mismatch - order price does not match current product price'\<close>
  | OnlyOwnProducts                      \<comment> \<open>'You can only update your own products'\<close>
  | OrderNotFound                        \<comment> \<open>'Order not found'\<close>
  | NotAuthorizedToUpdate                \<comment> \<open>'You are not authorized to update this order'\<close>
  | NotAuthorizedToCancel                \<comment> \<open>'You are not authorized to cancel this order'\<close>
  | OnlyPendingCanBeCanceled             \<comment> \<open>'Only pending orders can be canceled'\<close>
  | CannotTransition OrderStatus OrderStatus  \<comment> \<open>'Cannot transition from ... to ...'\<close>
  | CannotChangeCompleted                \<comment> \<open>'Cannot change status of a completed order'\<close>
  | CannotChangeCanceled                 \<comment> \<open>'Cannot change status of a canceled order'\<close>
  | SellersCanOnly                       \<comment> \<open>'Sellers can only set orders to processing, shipped, or completed'\<close>
  | BuyersCanOnly                        \<comment> \<open>'Buyers can only cancel pending orders'\<close>
  | AlreadyLiked                         \<comment> \<open>'User has already liked this content'\<close>
  | LikeNotFound                         \<comment> \<open>'Like not found'\<close>
  | CommentRequired                      \<comment> \<open>'Comment content is required'\<close>
  | CommentNotFound                      \<comment> \<open>'Comment not found'\<close>
  | NotAuthorizedToDeleteComment         \<comment> \<open>'You are not authorized to delete this comment'\<close>
  | RecordNotFound                       \<comment> \<open>the ORM's error for update/delete of a missing row\<close>
  | UniqueConstraintFailed               \<comment> \<open>the ORM's error for create of an existing unique key\<close>

record Product =
  sellerId :: string
  price :: real
  stock :: int
  isActive :: bool

record UpdateProductInput =
  upd_price :: "real option"
  upd_stock :: "int option"
  upd_isActive :: "bool option"

record Order =
  orderId :: nat
  buyerId :: string
  productId :: string
  quantity :: int
  totalPrice :: real
  status :: OrderStatus
  shippingAddress :: "string option"


record UpdateOrderInput =
  set_quantity :: "int option"
  set_totalPrice :: "real option"
  set_status :: "OrderStatus option"
  set_shippingAddress :: "string option"

record OrderWithDetails =
  order :: Order
  product :: Product

record MarketDb =
  products :: "string \<rightharpoonup> Product"
  orders :: "Order list"

text \<open>The key the database gives a new row: one more than every key in the table.\<close>

definition newId :: "nat list \<Rightarrow> nat" where
  "newId ids = Suc (foldr max ids 0)"

section \<open>Product repository and service\<close>

definition productFindById :: "MarketDb \<Rightarrow> string \<Rightarrow> Product option" where
  "productFindById db pid = products db pid"

definition applyProductUpdate :: "UpdateProductInput \<Rightarrow> Product \<Rightarrow> Product" where
  "applyProductUpdate d p =
     p\<lparr> price := (case upd_price d of None \<Rightarrow> price p | Some v \<Rightarrow> v),
        stock := (case upd_stock d of None \<Rightarrow> stock p | Some v \<Rightarrow> v),
        isActive := (case upd_isActive d of None \<Rightarrow> isActive p | Some v \<Rightarrow> v) \<rparr>"

definition productUpdate ::
  "string \<Rightarrow> UpdateProductInput \<Rightarrow> MarketDb \<Rightarrow> (error + Product) \<times> MarketDb" where
  "productUpdate pid d db =
     (case products db pid of
        None \<Rightarrow> (Inl RecordNotFound, db)
      | Some p \<Rightarrow>
          (Inr (applyProductUpdate d p),
           db\<lparr>products := (products db)(pid \<mapsto> applyProductUpdate d p)\<rparr>))"


definition updateProduct ::
  "string \<Rightarrow> string \<Rightarrow> UpdateProductInput \<Rightarrow> bool \<Rightarrow> MarketDb
     \<Rightarrow> (error + Product) \<times> MarketDb" where
  "updateProduct pid userId updateData isAdmin db =
     (case productFindById db pid of
        None \<Rightarrow> (Inl ProductNotFound, db)
      | Some p \<Rightarrow>
          if \<not> isAdmin \<and> sellerId p \<noteq> userId then (Inl OnlyOwnProducts, db)
          else productUpdate pid updateData db)"

section \<open>Order repository\<close>


definition orderFindById :: "MarketDb \<Rightarrow> nat \<Rightarrow> OrderWithDetails option" where
  "orderFindById db oid =
     (case find (\<lambda>r. orderId r = oid) (orders db) of
        None \<Rightarrow> None
      | Some r \<Rightarrow>
          (case products db (productId r) of
             None \<Rightarrow> None
           | Some p \<Rightarrow> Some \<lparr> order = r, product = p \<rparr>))"

definition applyOrderUpdate :: "UpdateOrderInput \<Rightarrow> Order \<Rightarrow> Order" where
  "applyOrderUpdate d r =
     r\<lparr> quantity := (case set_quantity d of None \<Rightarrow> quantity r | Some v \<Rightarrow> v),
        totalPrice := (case set_totalPrice d of None \<Rightarrow> totalPrice r | Some v \<Rightarrow> v),
        status := (case set_status d of None \<Rightarrow> status r | Some v \<Rightarrow> v),
        shippingAddress :=
          (case set_shippingAddress d of None \<Rightarrow> shippingAddress r | Some v \<Rightarrow> Some v) \<rparr>"

definition orderUpdate ::
  "nat \<Rightarrow> UpdateOrderInput \<Rightarrow> MarketDb \<Rightarrow> (error + Order) \<times> MarketDb" where
  "orderUpdate oid d db =
     (case find (\<lambda>r. orderId r = oid) (orders db) of
        None \<Rightarrow> (Inl RecordNotFound, db)
      | Some r \<Rightarrow>
          (Inr (applyOrderUpdate d r),
           db\<lparr>orders :=
                map (\<lambda>x. if orderId x = oid then applyOrderUpdate d x else x) (orders db)\<rparr>))"

definition statusOnly :: "OrderStatus \<Rightarrow> UpdateOrderInput" where
  "statusOnly s =
     \<lparr> set_quantity = None, set_totalPrice = None, set_status = Some s,
       set_shippingAddress = None \<rparr>"

definition stockOnly :: "int \<Rightarrow> UpdateProductInput" where
  "stockOnly n = \<lparr> upd_price = None, upd_stock = Some n, upd_isActive = None \<rparr>"

section \<open>Order service\<close>


definition validateStatusTransition ::
  "OrderStatus \<Rightarrow> OrderStatus \<Rightarrow> string \<Rightarrow> OrderWithDetails \<Rightarrow> error + unit" where
  "validateStatusTransition currentStatus newStatus userId ow =
     (case
        (case currentStatus of
           pending \<Rightarrow>
             if newStatus \<notin> set [processing, completed, canceled]
             then Some (CannotTransition currentStatus newStatus) else None
         | processing \<Rightarrow>
             if newStatus \<notin> set [completed, shipped, canceled]
             then Some (CannotTransition currentStatus newStatus) else None
         | shipped \<Rightarrow>
             if newStatus \<noteq> completed
             then Some (CannotTransition currentStatus newStatus) else None
         | completed \<Rightarrow> Some CannotChangeCompleted
         | canceled \<Rightarrow> Some CannotChangeCanceled)
      of
        Some e \<Rightarrow> Inl e
      | None \<Rightarrow>
          let isSeller = (userId = sellerId (product ow));
              isBuyer = (userId = buyerId (order ow))
          in
            if isSeller \<and> newStatus \<notin> set [processing, shipped, completed]
            then Inl SellersCanOnly
            else if isBuyer \<and> newStatus \<noteq> canceled then Inl BuyersCanOnly
            else Inr ())"

definition updateOrderStatus ::
  "nat \<Rightarrow> OrderStatus \<Rightarrow> string \<Rightarrow> bool \<Rightarrow> MarketDb \<Rightarrow> (error + Order) \<times> MarketDb" where
  "updateOrderStatus oid newStatus userId isAdmin db =
     (case orderFindById db oid of
        None \<Rightarrow> (Inl OrderNotFound, db)
      | Some ow \<Rightarrow>
          if \<not> isAdmin \<and> sellerId (product ow) \<noteq> userId \<and> buyerId (order ow) \<noteq> userId
          then (Inl NotAuthorizedToUpdate, db)
          else
            (case validateStatusTransition (status (order ow)) newStatus userId ow of
               Inl e \<Rightarrow> (Inl e, db)
             | Inr _ \<Rightarrow> orderUpdate oid (statusOnly newStatus) db))"

definition cancelOrder ::
  "nat \<Rightarrow> string \<Rightarrow> bool \<Rightarrow> MarketDb \<Rightarrow> (error + Order) \<times> MarketDb" where
  "cancelOrder oid userId isAdmin db =
     (case orderFindById db oid of
        None \<Rightarrow> (Inl OrderNotFound, db)
      | Some ow \<Rightarrow>
          if \<not> isAdmin \<and> buyerId (order ow) \<noteq> userId \<and> sellerId (product ow) \<noteq> userId
          then (Inl NotAuthorizedToCancel, db)
          else if status (order ow) \<noteq> pending then (Inl OnlyPendingCanBeCanceled, db)
          else
            (case orderUpdate oid (statusOnly canceled) db of
               (Inl e, db1) \<Rightarrow> (Inl e, db1)
             | (Inr updatedOrder, db1) \<Rightarrow>
                 (case updateProduct (productId (order ow)) (sellerId (product ow))
                         (stockOnly (stock (product ow) + quantity (order ow))) True db1 of
                    (Inl e, db2) \<Rightarrow> (Inl e, db2)
                  | (Inr _, db2) \<Rightarrow> (Inr updatedOrder, db2))))"

section \<open>Ranking repository and service\<close>

text \<open>
  A ranking row is unique per (user, category). \<open>truthy\<close> is JavaScript's truth value of
  an optional string: \<open>undefined\<close> and the empty string are false.
\<close>

record UserRanking =
  rankedUserId :: string
  categoryId :: string
  score :: real
  updatedBy :: string

record CreateRankingInput =
  cr_userId :: string
  cr_categoryId :: string
  cr_score :: real
  cr_updatedBy :: "string option"

record UpdateRankingInput =
  new_score :: "real option"
  new_updatedBy :: "string option"

type_synonym RankingDb = "string \<times> string \<rightharpoonup> UserRanking"

definition truthy :: "string option \<Rightarrow> bool" where
  "truthy v = (case v of None \<Rightarrow> False | Some s \<Rightarrow> s \<noteq> [])"

definition findRanking :: "RankingDb \<Rightarrow> string \<Rightarrow> string \<Rightarrow> UserRanking option" where
  "findRanking db userId cat = db (userId, cat)"

definition createRanking ::
  "CreateRankingInput \<Rightarrow> RankingDb \<Rightarrow> (error + UserRanking) \<times> RankingDb" where
  "createRanking d db =
     (if db (cr_userId d, cr_categoryId d) \<noteq> None then (Inl UniqueConstraintFailed, db)
      else
        let row = \<lparr> rankedUserId = cr_userId d,
                     categoryId = cr_categoryId d,
                     score = cr_score d,
                     updatedBy =
                       (case cr_updatedBy d of
                          None \<Rightarrow> cr_userId d
                        | Some a \<Rightarrow> if truthy (Some a) then a else cr_userId d) \<rparr>
        in (Inr row, db((cr_userId d, cr_categoryId d) \<mapsto> row)))"

definition applyRankingUpdate :: "UpdateRankingInput \<Rightarrow> UserRanking \<Rightarrow> UserRanking" where
  "applyRankingUpdate d r =
     r\<lparr> score := (case new_score d of None \<Rightarrow> score r | Some v \<Rightarrow> v),
        updatedBy := (case new_updatedBy d of None \<Rightarrow> updatedBy r | Some a \<Rightarrow> a) \<rparr>"

definition updateRanking ::
  "string \<Rightarrow> string \<Rightarrow> UpdateRankingInput \<Rightarrow> RankingDb
     \<Rightarrow> (error + UserRanking) \<times> RankingDb" where
  "updateRanking userId cat d db =
     (case db (userId, cat) of
        None \<Rightarrow> (Inl RecordNotFound, db)
      | Some r \<Rightarrow> (Inr (applyRankingUpdate d r), db((userId, cat) \<mapsto> applyRankingUpdate d r)))"

definition adjustRanking ::
  "string \<Rightarrow> string \<Rightarrow> real \<Rightarrow> string option \<Rightarrow> RankingDb
     \<Rightarrow> (error + UserRanking) \<times> RankingDb" where
  "adjustRanking userId cat adjustment actor db =
     (case findRanking db userId cat of
        Some existingRanking \<Rightarrow>
          let newScore = score existingRanking + adjustment in
          updateRanking userId cat \<lparr> new_score = Some newScore, new_updatedBy = actor \<rparr> db
      | None \<Rightarrow>
          createRanking
            \<lparr> cr_userId = userId, cr_categoryId = cat, cr_score = adjustment,
              cr_updatedBy = actor \<rparr> db)"


datatype EngagementKind = like | comment | share

definition applyPostEngagementRanking ::
  "string \<Rightarrow> EngagementKind \<Rightarrow> real \<Rightarrow> RankingDb \<Rightarrow> (error + unit) \<times> RankingDb" where
  "applyPostEngagementRanking userId engagementType engagementValue db =
     (let adjustment =
            (case engagementType of
               like \<Rightarrow> 1 * engagementValue
             | comment \<Rightarrow> 3 * engagementValue
             | share \<Rightarrow> 5 * engagementValue)
      in case adjustRanking userId ''content'' adjustment None db of
           (Inl e, db1) \<Rightarrow> (Inl e, db1)
         | (Inr _, db1) \<Rightarrow> (Inr (), db1))"

text \<open>
  The score a (user, category) pair has; a pair with no row yet counts as 0, the value
  \<open>adjustRanking\<close> starts such a pair from.
\<close>

definition scoreOf :: "RankingDb \<Rightarrow> string \<Rightarrow> string \<Rightarrow> real" where
  "scoreOf db userId cat = (case findRanking db userId cat of None \<Rightarrow> 0 | Some r \<Rightarrow> score r)"

section \<open>Ranking adjustments in double precision\<close>

text \<open>
  A JavaScript number is an IEEE 754 double, and \<open>score + adjustment\<close> is the double
  nearest to the exact sum, ties going to the even significand. \<open>roundDouble\<close> is that
  rounding on the finite doubles: a double has 53 significant bits, so the spacing of the
  doubles around \<open>x\<close> is \<open>2 ^ (ilog2 \<bar>x\<bar> - 52)\<close>, and \<open>2 ^ - 1074\<close> below the normal
  range. \<open>isDouble\<close> holds of the finite doubles. Infinity, NaN and the sign of zero are
  not values of the model: a sum beyond the largest finite double has no counterpart here.
\<close>

function ilog2 :: "real \<Rightarrow> int" where
  "ilog2 x =
     (if 2 \<le> x then ilog2 (x / 2) + 1
      else if 0 < x \<and> x < 1 then ilog2 (2 * x) - 1
      else 0)"
  by pat_completeness auto
termination
proof (relation "measure (\<lambda>x. if 1 \<le> x then nat \<lfloor>x\<rfloor> else nat \<lceil>1 / x\<rceil> + 1)")
  show "wf (measure (\<lambda>x::real. if 1 \<le> x then nat \<lfloor>x\<rfloor> else nat \<lceil>1 / x\<rceil> + 1))"
    by simp
next
  fix x :: real assume "2 \<le> x"
  then have "\<lfloor>x / 2\<rfloor> < \<lfloor>x\<rfloor>" "0 \<le> \<lfloor>x / 2\<rfloor>"
    by linarith+
  with \<open>2 \<le> x\<close>
  show "(x / 2, x) \<in> measure (\<lambda>x. if 1 \<le> x then nat \<lfloor>x\<rfloor> else nat \<lceil>1 / x\<rceil> + 1)"
    by auto
next
  fix x :: real assume a: "\<not> 2 \<le> x" "0 < x \<and> x < 1"
  then have big: "1 < 1 / x" by simp
  show "(2 * x, x) \<in> measure (\<lambda>x. if 1 \<le> x then nat \<lfloor>x\<rfloor> else nat \<lceil>1 / x\<rceil> + 1)"
  proof (cases "1 \<le> 2 * x")
    case True
    with a have "\<lfloor>2 * x\<rfloor> = 1" by linarith
    moreover from big have "2 \<le> \<lceil>1 / x\<rceil>" by linarith
    ultimately show ?thesis using a True by auto
  next
    case False
    define y where "y = 1 / x"
    from False a have y: "2 < y" by (simp add: y_def field_simps)
    have half: "1 / (2 * x) = y / 2" by (simp add: y_def)
    from y have "y / 2 \<le> y - 1" by simp
    then have "\<lceil>y / 2\<rceil> \<le> \<lceil>y - 1\<rceil>" by (rule ceiling_mono)
    moreover from y have "0 < \<lceil>y / 2\<rceil>" by linarith
    ultimately have "\<lceil>1 / (2 * x)\<rceil> < \<lceil>1 / x\<rceil>" "0 < \<lceil>1 / (2 * x)\<rceil>"
      unfolding half by (simp_all add: y_def)
    then show ?thesis using a False by auto
  qed
qed

definition pow2 :: "int \<Rightarrow> real" where
  "pow2 e = (if 0 \<le> e then 2 ^ nat e else 1 / 2 ^ nat (- e))"

definition roundHalfEven :: "real \<Rightarrow> int" where
  "roundHalfEven x =
     (let f = \<lfloor>x\<rfloor>; r = x - of_int f
      in if r < 1 / 2 then f else if 1 / 2 < r then f + 1 else if even f then f else f + 1)"

definition roundDouble :: "real \<Rightarrow> real" where
  "roundDouble x =
     (if x = 0 then 0
      else let q = max (- 1074) (ilog2 \<bar>x\<bar> - 52)
           in of_int (roundHalfEven (x / pow2 q)) * pow2 q)"

definition isDouble :: "real \<Rightarrow> bool" where
  "isDouble x = (roundDouble x = x \<and> \<bar>x\<bar> < 2 ^ 1024)"

definition addDouble :: "real \<Rightarrow> real \<Rightarrow> real" where
  "addDouble x y = roundDouble (x + y)"

definition mulDouble :: "real \<Rightarrow> real \<Rightarrow> real" where
  "mulDouble x y = roundDouble (x * y)"

text \<open>
  \<open>adjustRanking\<close> and \<open>applyPostEngagementRanking\<close> once more, with the sum and the
  product the engine computes. Where the sum is exact they are the definitions above.
\<close>

definition adjustRankingF64 ::
  "string \<Rightarrow> string \<Rightarrow> real \<Rightarrow> string option \<Rightarrow> RankingDb
     \<Rightarrow> (error + UserRanking) \<times> RankingDb" where
  "adjustRankingF64 userId cat adjustment actor db =
     (case findRanking db userId cat of
        Some existingRanking \<Rightarrow>
          let newScore = addDouble (score existingRanking) adjustment in
          updateRanking userId cat \<lparr> new_score = Some newScore, new_updatedBy = actor \<rparr> db
      | None \<Rightarrow>
          createRanking
            \<lparr> cr_userId = userId, cr_categoryId = cat, cr_score = adjustment,
              cr_updatedBy = actor \<rparr> db)"

definition applyPostEngagementRankingF64 ::
  "string \<Rightarrow> EngagementKind \<Rightarrow> real \<Rightarrow> RankingDb \<Rightarrow> (error + unit) \<times> RankingDb" where
  "applyPostEngagementRankingF64 userId engagementType engagementValue db =
     (let adjustment =
            (case engagementType of
               like \<Rightarrow> mulDouble 1 engagementValue
             | comment \<Rightarrow> mulDouble 3 engagementValue
             | share \<Rightarrow> mulDouble 5 engagementValue)
      in case adjustRankingF64 userId ''content'' adjustment None db of
           (Inl e, db1) \<Rightarrow> (Inl e, db1)
         | (Inr _, db1) \<Rightarrow> (Inr (), db1))"

section \<open>Engagement repository and service\<close>

text \<open>
  The engagement service owns a ranking service and calls its
  \<open>applyPostEngagementRanking\<close> inside a \<open>try\<close> whose \<open>catch\<close> only logs. The service
  is a parameter of the operations here, over any ranking state \<open>'r\<close>, so that what the
  operations do can be stated for every behaviour of the ranking service, failures
  included; the running system passes \<open>applyPostEngagementRanking\<close>, which with the
  engine's rounding is \<open>applyPostEngagementRankingF64\<close>.
\<close>

datatype EngagementType = Like | Comment | Share

record Engagement =
  e_id :: nat
  e_userId :: string
  e_contentId :: string
  e_contentType :: string
  e_type :: EngagementType
  e_comment :: "string option"
  e_parentId :: "nat option"

record CreateEngagementInput =
  ce_userId :: string
  ce_contentId :: string
  ce_contentType :: string
  ce_type :: EngagementType
  ce_comment :: "string option"
  ce_parentId :: "nat option"

record 'r World =
  engagements :: "Engagement list"
  rankingDb :: 'r

type_synonym 'r RankingService =
  "string \<Rightarrow> EngagementKind \<Rightarrow> real \<Rightarrow> 'r \<Rightarrow> (error + unit) \<times> 'r"

definition engagementCreate ::
  "CreateEngagementInput \<Rightarrow> Engagement list \<Rightarrow> Engagement \<times> Engagement list" where
  "engagementCreate d es =
     (let row = \<lparr> e_id = newId (map e_id es),
                   e_userId = ce_userId d,
                   e_contentId = ce_contentId d,
                   e_contentType = ce_contentType d,
                   e_type = ce_type d,
                   e_comment = ce_comment d,
                   e_parentId = ce_parentId d \<rparr>
      in (row, es @ [row]))"

definition engagementFindById :: "Engagement list \<Rightarrow> nat \<Rightarrow> Engagement option" where
  "engagementFindById es i = find (\<lambda>e. e_id e = i) es"

definition engagementDelete ::
  "nat \<Rightarrow> Engagement list \<Rightarrow> (error + Engagement) \<times> Engagement list" where
  "engagementDelete i es =
     (case find (\<lambda>e. e_id e = i) es of
        None \<Rightarrow> (Inl RecordNotFound, es)
      | Some e \<Rightarrow> (Inr e, filter (\<lambda>x. e_id x \<noteq> i) es))"

definition findUserEngagement ::
  "Engagement list \<Rightarrow> string \<Rightarrow> string \<Rightarrow> EngagementType \<Rightarrow> Engagement option" where
  "findUserEngagement es userId contentId ty =
     find (\<lambda>e. e_userId e = userId \<and> e_contentId e = contentId \<and> e_type e = ty) es"

text \<open>
  The block every operation ends with:
  \<^verbatim>\<open>if (contentOwnerId && contentOwnerId !== userId) { try { await
  rankingService.applyPostEngagementRanking(contentOwnerId, kind, value) } catch { log } }\<close>.
  The outcome of the call is dropped; the ranking state it leaves behind stays.
\<close>

definition rankContentOwner ::
  "'r RankingService \<Rightarrow> string option \<Rightarrow> string \<Rightarrow> EngagementKind \<Rightarrow> real
     \<Rightarrow> 'r World \<Rightarrow> 'r World" where
  "rankContentOwner rankingService contentOwnerId userId kind v w =
     (case contentOwnerId of
        None \<Rightarrow> w
      | Some ownerId \<Rightarrow>
          if truthy (Some ownerId) \<and> ownerId \<noteq> userId
          then w\<lparr>rankingDb := snd (rankingService ownerId kind v (rankingDb w))\<rparr>
          else w)"

text \<open>
  \<open>String.prototype.trim\<close> strips the white space and line terminator characters of
  JavaScript from both ends. Strings are UTF-8 byte sequences here, so such a character is
  one byte (tab, LF, VT, FF, CR, space), two (U+00A0 = C2 A0) or three (U+1680, U+2000 to
  U+200A, U+2028, U+2029, U+202F, U+205F, U+3000, U+FEFF). \<open>dropLeading\<close> strips them from
  the front; the end is stripped on the reversed string, where the bytes of a character
  come last byte first.
\<close>

definition isWhiteSpace :: "char \<Rightarrow> bool" where
  "isWhiteSpace c = (c \<in> set [CHR 0x09, CHR 0x0A, CHR 0x0B, CHR 0x0C, CHR 0x0D, CHR 0x20])"

definition isWhiteSpace2 :: "char \<Rightarrow> char \<Rightarrow> bool" where
  "isWhiteSpace2 a b = (a = CHR 0xC2 \<and> b = CHR 0xA0)"

definition isWhiteSpace3 :: "char \<Rightarrow> char \<Rightarrow> char \<Rightarrow> bool" where
  "isWhiteSpace3 a b c =
     ([a, b, c] \<in> set
        [[CHR 0xE1, CHR 0x9A, CHR 0x80],
         [CHR 0xE2, CHR 0x80, CHR 0x80], [CHR 0xE2, CHR 0x80, CHR 0x81],
         [CHR 0xE2, CHR 0x80, CHR 0x82], [CHR 0xE2, CHR 0x80, CHR 0x83],
         [CHR 0xE2, CHR 0x80, CHR 0x84], [CHR 0xE2, CHR 0x80, CHR 0x85],
         [CHR 0xE2, CHR 0x80, CHR 0x86], [CHR 0xE2, CHR 0x80, CHR 0x87],
         [CHR 0xE2, CHR 0x80, CHR 0x88], [CHR 0xE2, CHR 0x80, CHR 0x89],
         [CHR 0xE2, CHR 0x80, CHR 0x8A],
         [CHR 0xE2, CHR 0x80, CHR 0xA8], [CHR 0xE2, CHR 0x80, CHR 0xA9],
         [CHR 0xE2, CHR 0x80, CHR 0xAF], [CHR 0xE2, CHR 0x81, CHR 0x9F],
         [CHR 0xE3, CHR 0x80, CHR 0x80], [CHR 0xEF, CHR 0xBB, CHR 0xBF]])"

fun dropLeading ::
  "(char \<Rightarrow> char \<Rightarrow> bool) \<Rightarrow> (char \<Rightarrow> char \<Rightarrow> char \<Rightarrow> bool) \<Rightarrow> string \<Rightarrow> string" where
  "dropLeading w2 w3 (a # b # c # s) =
     (if isWhiteSpace a then dropLeading w2 w3 (b # c # s)
      else if w2 a b then dropLeading w2 w3 (c # s)
      else if w3 a b c then dropLeading w2 w3 s
      else a # b # c # s)"
| "dropLeading w2 w3 [a, b] =
     (if isWhiteSpace a then dropLeading w2 w3 [b]
      else if w2 a b then []
      else [a, b])"
| "dropLeading w2 w3 [a] = (if isWhiteSpace a then [] else [a])"
| "dropLeading w2 w3 [] = []"

definition trim :: "string \<Rightarrow> string" where
  "trim s =
     rev (dropLeading (\<lambda>a b. isWhiteSpace2 b a) (\<lambda>a b c. isWhiteSpace3 c b a)
            (rev (dropLeading isWhiteSpace2 isWhiteSpace3 s)))"

definition createLike ::
  "'r RankingService \<Rightarrow> string \<Rightarrow> string \<Rightarrow> string \<Rightarrow> string option \<Rightarrow> 'r World
     \<Rightarrow> (error + Engagement) \<times> 'r World" where
  "createLike rankingService userId contentId contentType contentOwnerId w =
     (case findUserEngagement (engagements w) userId contentId Like of
        Some existingLike \<Rightarrow> (Inl AlreadyLiked, w)
      | None \<Rightarrow>
          (case engagementCreate
                  \<lparr> ce_userId = userId, ce_contentId = contentId,
                    ce_contentType = contentType, ce_type = Like,
                    ce_comment = None, ce_parentId = None \<rparr> (engagements w) of
             (row, es1) \<Rightarrow>
               (Inr row,
                rankContentOwner rankingService contentOwnerId userId like 1
                  (w\<lparr>engagements := es1\<rparr>))))"

definition removeLike ::
  "'r RankingService \<Rightarrow> string \<Rightarrow> string \<Rightarrow> string option \<Rightarrow> 'r World
     \<Rightarrow> (error + unit) \<times> 'r World" where
  "removeLike rankingService userId contentId contentOwnerId w =
     (case findUserEngagement (engagements w) userId contentId Like of
        None \<Rightarrow> (Inl LikeNotFound, w)
      | Some existingLike \<Rightarrow>
          (case engagementDelete (e_id existingLike) (engagements w) of
             (Inl e, es1) \<Rightarrow> (Inl e, w\<lparr>engagements := es1\<rparr>)
           | (Inr _, es1) \<Rightarrow>
               (Inr (),
                rankContentOwner rankingService contentOwnerId userId like (- 1)
                  (w\<lparr>engagements := es1\<rparr>))))"

definition createComment ::
  "'r RankingService \<Rightarrow> string \<Rightarrow> string \<Rightarrow> string \<Rightarrow> string \<Rightarrow> nat option
     \<Rightarrow> string option \<Rightarrow> 'r World \<Rightarrow> (error + Engagement) \<times> 'r World" where
  "createComment rankingService userId contentId contentType text parentId contentOwnerId w =
     (if text = [] \<or> length (trim text) = 0 then (Inl CommentRequired, w)
      else
        (case engagementCreate
                \<lparr> ce_userId = userId, ce_contentId = contentId,
                  ce_contentType = contentType, ce_type = Comment,
                  ce_comment = Some text, ce_parentId = parentId \<rparr> (engagements w) of
           (row, es1) \<Rightarrow>
             (Inr row,
              rankContentOwner rankingService contentOwnerId userId comment 1
                (w\<lparr>engagements := es1\<rparr>))))"

definition deleteComment ::
  "'r RankingService \<Rightarrow> nat \<Rightarrow> string \<Rightarrow> bool \<Rightarrow> string option \<Rightarrow> 'r World
     \<Rightarrow> (error + Engagement) \<times> 'r World" where
  "deleteComment rankingService commentId userId isAdmin contentOwnerId w =
     (case engagementFindById (engagements w) commentId of
        None \<Rightarrow> (Inl CommentNotFound, w)
      | Some c \<Rightarrow>
          if \<not> isAdmin \<and> e_userId c \<noteq> userId then (Inl NotAuthorizedToDeleteComment, w)
          else
            (case engagementDelete commentId (engagements w) of
               (Inl e, es1) \<Rightarrow> (Inl e, w\<lparr>engagements := es1\<rparr>)
             | (Inr deletedComment, es1) \<Rightarrow>
                 (Inr deletedComment,
                  rankContentOwner rankingService contentOwnerId userId comment (- 1)
                    (w\<lparr>engagements := es1\<rparr>))))"

definition createShare ::
  "'r RankingService \<Rightarrow> string \<Rightarrow> string \<Rightarrow> string \<Rightarrow> string option \<Rightarrow> 'r World
     \<Rightarrow> (error + Engagement) \<times> 'r World" where
  "createShare rankingService userId contentId contentType contentOwnerId w =
     (case engagementCreate
             \<lparr> ce_userId = userId, ce_contentId = contentId,
               ce_contentType = contentType, ce_type = Share,
               ce_comment = None, ce_parentId = None \<rparr> (engagements w) of
        (row, es1) \<Rightarrow>
          (Inr row,
           rankContentOwner rankingService contentOwnerId userId share 1
             (w\<lparr>engagements := es1\<rparr>)))"

section \<open>Example data\<close>

text \<open>
  A shop with one product (seller sam, price 10, three left in stock after the order)
  and one order of two pieces, placed by \<open>buyer\<close> and now at status \<open>st\<close>.
\<close>

definition shopDb :: "string \<Rightarrow> OrderStatus \<Rightarrow> MarketDb" where
  "shopDb buyer st =
     \<lparr> products = [''p1'' \<mapsto> \<lparr> sellerId = ''sam'', price = 10, stock = 3, isActive = True \<rparr>],
       orders = [\<lparr> orderId = 1, buyerId = buyer, productId = ''p1'', quantity = 2,
                   totalPrice = 20, status = st, shippingAddress = None \<rparr>] \<rparr>"



text \<open>A ranking service that is down: every call throws and changes nothing.\<close>

definition failingRanking :: "'r RankingService" where
  "failingRanking userId kind v db = (Inl RecordNotFound, db)"

text \<open>
  A ranking service that answers every call by setting the user's score in the category
  content to 100.
\<close>

definition generousRanking :: "RankingDb RankingService" where
  "generousRanking userId kind v db =
     (Inr (),
      db((userId, ''content'') \<mapsto>
        \<lparr> rankedUserId = userId, categoryId = ''content'', score = 100, updatedBy = userId \<rparr>))"

text \<open>A feed where Al has liked post1 and commented on it; nobody has a ranking row.\<close>

definition feedWorld :: "RankingDb World" where
  "feedWorld =
     \<lparr> engagements =
         [\<lparr> e_id = 1, e_userId = ''al'', e_contentId = ''post1'', e_contentType = ''Post'',
            e_type = Like, e_comment = None, e_parentId = None \<rparr>,
          \<lparr> e_id = 2, e_userId = ''al'', e_contentId = ''post1'', e_contentType = ''Post'',
            e_type = Comment, e_comment = Some ''nice'', e_parentId = None \<rparr>],
       rankingDb = Map.empty \<rparr>"

text \<open>
  Bo's content score is 0.1, as an admin can set it: the double nearest to 1/10. Nobody
  has liked anything yet.
\<close>

definition tenthWorld :: "RankingDb World" where
  "tenthWorld =
     \<lparr> engagements = [],
       rankingDb = [(''bo'', ''content'') \<mapsto>
         \<lparr> rankedUserId = ''bo'', categoryId = ''content'',
           score = 3602879701896397 / 36028797018963968, updatedBy = ''root'' \<rparr>] \<rparr>"

text \<open>The same feed with Bo's content score at 7.\<close>

definition sevenWorld :: "RankingDb World" where
  "sevenWorld =
     \<lparr> engagements = [],
       rankingDb = [(''bo'', ''content'') \<mapsto>
         \<lparr> rankedUserId = ''bo'', categoryId = ''content'', score = 7,
           updatedBy = ''bo'' \<rparr>] \<rparr>"

section \<open>Facts about the repositories\<close>

lemma newId_greater: "i \<in> set ids \<Longrightarrow> i < newId ids"
  unfolding newId_def by (induction ids) auto


lemma find_map_upd:
  assumes "\<And>x. orderId (f x) = orderId x"
  shows "find (\<lambda>r. orderId r = k) (map (\<lambda>x. if orderId x = k then f x else x) rs) =
     map_option f (find (\<lambda>r. orderId r = k) rs)"
  using assms by (induction rs) auto

lemma orderUpdate_found:
  "find (\<lambda>r. orderId r = oid) (orders db) = Some r \<Longrightarrow>
   orderUpdate oid d db =
     (Inr (applyOrderUpdate d r),
      db\<lparr>orders := map (\<lambda>x. if orderId x = oid then applyOrderUpdate d x else x) (orders db)\<rparr>)"
  by (simp add: orderUpdate_def)

lemma applyOrderUpdate_statusOnly: "applyOrderUpdate (statusOnly s) r = r\<lparr>status := s\<rparr>"
  by (simp add: applyOrderUpdate_def statusOnly_def)

lemma updateProduct_admin:
  "products db pid = Some p \<Longrightarrow>
   updateProduct pid u (stockOnly n) True db =
     (Inr (p\<lparr>stock := n\<rparr>), db\<lparr>products := (products db)(pid \<mapsto> p\<lparr>stock := n\<rparr>)\<rparr>)"
  by (simp add: updateProduct_def productFindById_def productUpdate_def applyProductUpdate_def
      stockOnly_def)

lemma orderFindById_Some:
  "orderFindById db oid = Some ow \<longleftrightarrow>
     find (\<lambda>r. orderId r = oid) (orders db) = Some (order ow) \<and>
     products db (productId (order ow)) = Some (product ow)"
  by (auto simp: orderFindById_def split: option.splits)



lemma updateOrderStatus_validated:
  assumes "orderFindById db oid = Some ow"
    and "isAdmin \<or> userId = sellerId (product ow) \<or> userId = buyerId (order ow)"
  shows "updateOrderStatus oid newStatus userId isAdmin db =
     (case validateStatusTransition (status (order ow)) newStatus userId ow of
        Inl e \<Rightarrow> (Inl e, db)
      | Inr _ \<Rightarrow> orderUpdate oid (statusOnly newStatus) db)"
  using assms by (auto simp: updateOrderStatus_def)

lemma adjustRanking_eq:
  "adjustRanking u c d actor db =
     (case db (u, c) of
        Some r \<Rightarrow>
          (Inr (r\<lparr>score := score r + d,
                  updatedBy := (case actor of None \<Rightarrow> updatedBy r | Some a \<Rightarrow> a)\<rparr>),
           db((u, c) \<mapsto> r\<lparr>score := score r + d,
                  updatedBy := (case actor of None \<Rightarrow> updatedBy r | Some a \<Rightarrow> a)\<rparr>))
      | None \<Rightarrow>
          (Inr \<lparr> rankedUserId = u, categoryId = c, score = d,
                 updatedBy = (case actor of None \<Rightarrow> u | Some a \<Rightarrow> if a \<noteq> [] then a else u) \<rparr>,
           db((u, c) \<mapsto> \<lparr> rankedUserId = u, categoryId = c, score = d,
                 updatedBy = (case actor of None \<Rightarrow> u | Some a \<Rightarrow> if a \<noteq> [] then a else u) \<rparr>)))"
  by (simp add: adjustRanking_def findRanking_def updateRanking_def createRanking_def
      applyRankingUpdate_def truthy_def Let_def split: option.splits)


lemma rankContentOwner_engagements [simp]:
  "engagements (rankContentOwner rs owner userId kind v w) = engagements w"
  by (simp add: rankContentOwner_def split: option.splits)

lemma rankContentOwner_self:
  "owner = None \<or> owner = Some userId \<Longrightarrow> rankContentOwner rs owner userId kind v w = w"
  by (auto simp: rankContentOwner_def)

lemma rankContentOwner_other:
  "ownerId \<noteq> [] \<Longrightarrow> ownerId \<noteq> userId \<Longrightarrow>
   rankingDb (rankContentOwner rs (Some ownerId) userId kind v w) =
     snd (rs ownerId kind v (rankingDb w))"
  by (simp add: rankContentOwner_def truthy_def)

lemma engagementDelete_found:
  "find (\<lambda>e. e_id e = i) es = Some e \<Longrightarrow>
   engagementDelete i es = (Inr e, filter (\<lambda>x. e_id x \<noteq> i) es)"
  by (simp add: engagementDelete_def)

lemma find_Some_id:
  "find P es = Some l \<Longrightarrow> \<exists>e. find (\<lambda>x. e_id x = e_id l) es = Some e"
  by (induction es) (auto split: if_splits)

lemma applyPostEngagementRanking_eq:
  "applyPostEngagementRanking u k v db =
     (Inr (),
      snd (adjustRanking u ''content''
             (case k of like \<Rightarrow> 1 * v | comment \<Rightarrow> 3 * v | share \<Rightarrow> 5 * v) None db))"
  by (simp add: applyPostEngagementRanking_def adjustRanking_eq Let_def split: option.splits)

lemma find_app:
  "find P (xs @ ys) = (case find P xs of None \<Rightarrow> find P ys | Some x \<Rightarrow> Some x)"
  by (induction xs) auto

lemma e_id_below_newId: "x \<in> set es \<Longrightarrow> e_id x \<noteq> newId (map e_id es)"
  using newId_greater [of "e_id x" "map e_id es"] by auto

lemma find_newId_None: "find (\<lambda>e. e_id e = newId (map e_id es)) es = None"
  by (auto simp: find_None_iff dest: e_id_below_newId)

lemma filter_newId: "filter (\<lambda>x. e_id x \<noteq> newId (map e_id es)) es = es"
  by (auto simp: filter_id_conv dest: e_id_below_newId)

lemma roundDouble_unit: "roundDouble 1 = 1" "roundDouble (- 1) = - 1"
  by (simp_all add: roundDouble_def roundHalfEven_def pow2_def Let_def)

lemma adjustRankingF64_eq:
  "adjustRankingF64 u c d actor db =
     (case db (u, c) of
        Some r \<Rightarrow>
          (Inr (r\<lparr>score := addDouble (score r) d,
                  updatedBy := (case actor of None \<Rightarrow> updatedBy r | Some a \<Rightarrow> a)\<rparr>),
           db((u, c) \<mapsto> r\<lparr>score := addDouble (score r) d,
                  updatedBy := (case actor of None \<Rightarrow> updatedBy r | Some a \<Rightarrow> a)\<rparr>))
      | None \<Rightarrow>
          (Inr \<lparr> rankedUserId = u, categoryId = c, score = d,
                 updatedBy = (case actor of None \<Rightarrow> u | Some a \<Rightarrow> if a \<noteq> [] then a else u) \<rparr>,
           db((u, c) \<mapsto> \<lparr> rankedUserId = u, categoryId = c, score = d,
                 updatedBy = (case actor of None \<Rightarrow> u | Some a \<Rightarrow> if a \<noteq> [] then a else u) \<rparr>)))"
  by (simp add: adjustRankingF64_def findRanking_def updateRanking_def createRanking_def
      applyRankingUpdate_def truthy_def Let_def split: option.splits)

lemma adjustRankingF64_exact:
  assumes "\<And>r. db (u, c) = Some r \<Longrightarrow> roundDouble (score r + d) = score r + d"
  shows "adjustRankingF64 u c d actor db = adjustRanking u c d actor db"
  using assms by (simp add: adjustRankingF64_eq adjustRanking_eq addDouble_def split: option.splits)

lemma applyPostEngagementRankingF64_eq:
  "applyPostEngagementRankingF64 u k v db =
     (Inr (),
      snd (adjustRankingF64 u ''content''
             (case k of like \<Rightarrow> mulDouble 1 v | comment \<Rightarrow> mulDouble 3 v
              | share \<Rightarrow> mulDouble 5 v) None db))"
  by (simp add: applyPostEngagementRankingF64_def adjustRankingF64_eq Let_def
      split: option.splits)

lemma applyPostEngagementRankingF64_exact:
  assumes "roundDouble v = v"
    and "\<And>r. db (u, ''content'') = Some r \<Longrightarrow> roundDouble (score r + v) = score r + v"
  shows "applyPostEngagementRankingF64 u like v db = applyPostEngagementRanking u like v db"
  using assms
  by (simp add: applyPostEngagementRankingF64_eq applyPostEngagementRanking_eq
      adjustRankingF64_exact mulDouble_def)

lemma scoreOf_likeF64:
  "scoreOf (snd (applyPostEngagementRankingF64 u like v db)) u ''content'' =
     (case db (u, ''content'') of
        None \<Rightarrow> roundDouble v
      | Some r \<Rightarrow> roundDouble (score r + roundDouble v))"
  by (simp add: applyPostEngagementRankingF64_eq adjustRankingF64_eq scoreOf_def findRanking_def
      addDouble_def mulDouble_def split: option.splits)

lemma row_after_likeF64:
  "\<exists>r. findRanking (snd (applyPostEngagementRankingF64 u k v db)) u ''content'' = Some r"
  by (simp add: applyPostEngagementRankingF64_eq adjustRankingF64_eq findRanking_def
      split: option.splits)

lemma createComment_refuses_blank:
  "createComment rs u c t [CHR 0xC2, CHR 0xA0] p owner w = (Inl CommentRequired, w)"
  "createComment rs u c t [CHR 0x20, CHR 0xE2, CHR 0x80, CHR 0xA8, CHR 0x09] p owner w =
     (Inl CommentRequired, w)"
  by (simp_all add: createComment_def trim_def isWhiteSpace_def isWhiteSpace2_def
      isWhiteSpace3_def)

section \<open>Order lifecycle\<close>

text \<open>
  C1. An order whose status is completed or canceled is terminal: whatever the caller,
  the admin flag and the requested status, \<open>updateOrderStatus\<close> throws and leaves the
  database, hence the order's status, as it was.
\<close>

theorem terminal_status_update_fails:
  assumes "find (\<lambda>r. orderId r = oid) (orders db) = Some r"
    and "status r = completed \<or> status r = canceled"
  shows "\<exists>e. updateOrderStatus oid newStatus userId isAdmin db = (Inl e, db)"
proof (cases "orderFindById db oid")
  case None
  then show ?thesis by (simp add: updateOrderStatus_def)
next
  case (Some ow)
  with assms(1) have "order ow = r"
    by (auto simp: orderFindById_def split: option.splits)
  with assms(2) have "\<exists>e. validateStatusTransition (status (order ow)) newStatus userId ow = Inl e"
    by (auto simp: validateStatusTransition_def)
  with Some show ?thesis
    by (auto simp: updateOrderStatus_def)
qed

text \<open>An admin asking to set a completed order to processing is refused.\<close>

theorem terminal_status_update_fails_witness:
  "find (\<lambda>r. orderId r = 1) (orders (shopDb ''bea'' completed)) =
     Some \<lparr> orderId = 1, buyerId = ''bea'', productId = ''p1'', quantity = 2,
            totalPrice = 20, status = completed, shippingAddress = None \<rparr>
   \<and> (\<exists>e. updateOrderStatus 1 processing ''root'' True (shopDb ''bea'' completed) =
          (Inl e, shopDb ''bea'' completed))"
  using terminal_status_update_fails [of 1 "shopDb ''bea'' completed"
      "\<lparr> orderId = 1, buyerId = ''bea'', productId = ''p1'', quantity = 2,
         totalPrice = 20, status = completed, shippingAddress = None \<rparr>"
      processing "''root''" True]
  by (simp add: shopDb_def)




text \<open>
  C4 (as amended). For a caller who is not an admin, on any order: the order's seller
  asking for a status outside processing, shipped, completed, and the order's buyer
  asking for any status but canceled, are both refused and nothing is written. The
  transition table is checked first: when the transition from the current status is in
  the table the error is the role's ('Sellers can only ...', 'Buyers can only ...',
  answered 403 Forbidden); when it is not, the error is the transition's ('Cannot
  transition ...', 'Cannot change status ...', answered 400).
\<close>

theorem role_restriction_outcome:
  assumes "orderFindById db oid = Some ow"
  shows "let cur = status (order ow);
             legal = (cur = pending \<and> newStatus \<in> {processing, completed, canceled}
                      \<or> cur = processing \<and> newStatus \<in> {completed, shipped, canceled}
                      \<or> cur = shipped \<and> newStatus = completed);
             transitionError =
               (case cur of
                  completed \<Rightarrow> CannotChangeCompleted
                | canceled \<Rightarrow> CannotChangeCanceled
                | _ \<Rightarrow> CannotTransition cur newStatus)
         in (userId = sellerId (product ow) \<and> newStatus \<notin> {processing, shipped, completed} \<longrightarrow>
               updateOrderStatus oid newStatus userId False db =
                 (Inl (if legal then SellersCanOnly else transitionError), db))
          \<and> (userId = buyerId (order ow) \<and> newStatus \<noteq> canceled \<longrightarrow>
               updateOrderStatus oid newStatus userId False db =
                 (Inl (if legal then BuyersCanOnly else transitionError), db))"
proof -
  have seller: "updateOrderStatus oid newStatus userId False db =
      (Inl (if (status (order ow) = pending \<and> newStatus \<in> {processing, completed, canceled}
                \<or> status (order ow) = processing \<and> newStatus \<in> {completed, shipped, canceled}
                \<or> status (order ow) = shipped \<and> newStatus = completed)
            then SellersCanOnly
            else (case status (order ow) of
                    completed \<Rightarrow> CannotChangeCompleted
                  | canceled \<Rightarrow> CannotChangeCanceled
                  | _ \<Rightarrow> CannotTransition (status (order ow)) newStatus)), db)"
    if "userId = sellerId (product ow)" "newStatus \<notin> {processing, shipped, completed}"
    using that
    by (cases "status (order ow)"; cases newStatus)
       (simp_all add: updateOrderStatus_validated [OF assms] validateStatusTransition_def)
  have buyer: "updateOrderStatus oid newStatus userId False db =
      (Inl (if (status (order ow) = pending \<and> newStatus \<in> {processing, completed, canceled}
                \<or> status (order ow) = processing \<and> newStatus \<in> {completed, shipped, canceled}
                \<or> status (order ow) = shipped \<and> newStatus = completed)
            then BuyersCanOnly
            else (case status (order ow) of
                    completed \<Rightarrow> CannotChangeCompleted
                  | canceled \<Rightarrow> CannotChangeCanceled
                  | _ \<Rightarrow> CannotTransition (status (order ow)) newStatus)), db)"
    if "userId = buyerId (order ow)" "newStatus \<noteq> canceled"
    using that
    by (cases "status (order ow)"; cases newStatus)
       (simp_all add: updateOrderStatus_validated [OF assms] validateStatusTransition_def)
  from seller buyer show ?thesis
    unfolding Let_def by blast
qed

text \<open>
  On the pending order the seller's request to cancel and the buyer's request to start
  processing are legal transitions refused for the role.
\<close>

theorem role_restriction_outcome_witness:
  "orderFindById (shopDb ''bea'' pending) 1 =
     Some \<lparr> order = \<lparr> orderId = 1, buyerId = ''bea'', productId = ''p1'', quantity = 2,
                      totalPrice = 20, status = pending, shippingAddress = None \<rparr>,
            product = \<lparr> sellerId = ''sam'', price = 10, stock = 3, isActive = True \<rparr> \<rparr>
   \<and> updateOrderStatus 1 canceled ''sam'' False (shopDb ''bea'' pending) =
       (Inl SellersCanOnly, shopDb ''bea'' pending)
   \<and> updateOrderStatus 1 processing ''bea'' False (shopDb ''bea'' pending) =
       (Inl BuyersCanOnly, shopDb ''bea'' pending)"
  using role_restriction_outcome [of "shopDb ''bea'' pending" 1
      "\<lparr> order = \<lparr> orderId = 1, buyerId = ''bea'', productId = ''p1'', quantity = 2,
                      totalPrice = 20, status = pending, shippingAddress = None \<rparr>,
            product = \<lparr> sellerId = ''sam'', price = 10, stock = 3, isActive = True \<rparr> \<rparr>"
      canceled "''sam''"]
    role_restriction_outcome [of "shopDb ''bea'' pending" 1
      "\<lparr> order = \<lparr> orderId = 1, buyerId = ''bea'', productId = ''p1'', quantity = 2,
                      totalPrice = 20, status = pending, shippingAddress = None \<rparr>,
            product = \<lparr> sellerId = ''sam'', price = 10, stock = 3, isActive = True \<rparr> \<rparr>"
      processing "''bea''"]
  by (simp add: shopDb_def orderFindById_def)

text \<open>
  C4 as stated fails: on a shipped order the seller's request to cancel, and the buyer's
  request to go back to processing, are refused by the transition table before any role
  is looked at. The error is 'Cannot transition from shipped to ...', which the
  controller answers with 400, not the role error it answers with 403.
\<close>

theorem role_restriction_counterexample:
  "updateOrderStatus 1 canceled ''sam'' False (shopDb ''bea'' shipped) =
     (Inl (CannotTransition shipped canceled), shopDb ''bea'' shipped)
   \<and> updateOrderStatus 1 processing ''bea'' False (shopDb ''bea'' shipped) =
     (Inl (CannotTransition shipped processing), shopDb ''bea'' shipped)
   \<and> CannotTransition shipped canceled \<noteq> SellersCanOnly
   \<and> CannotTransition shipped processing \<noteq> BuyersCanOnly"
  by (simp add: updateOrderStatus_def orderFindById_def validateStatusTransition_def shopDb_def)

text \<open>
  C5 (as amended). On a pending order whose buyer is not also the product's seller, the
  buyer's \<open>updateOrderStatus\<close> to canceled succeeds and the order is stored with status
  canceled.
\<close>

theorem buyer_cancels_pending_by_status:
  assumes "orderFindById db oid = Some ow"
    and "status (order ow) = pending"
    and "userId = buyerId (order ow)"
    and "userId \<noteq> sellerId (product ow)"
  shows "fst (updateOrderStatus oid canceled userId isAdmin db) =
           Inr ((order ow)\<lparr>status := canceled\<rparr>)
       \<and> find (\<lambda>r. orderId r = oid)
            (orders (snd (updateOrderStatus oid canceled userId isAdmin db))) =
           Some ((order ow)\<lparr>status := canceled\<rparr>)"
proof -
  from assms(1) have f: "find (\<lambda>r. orderId r = oid) (orders db) = Some (order ow)"
    by (simp add: orderFindById_Some)
  have v: "validateStatusTransition (status (order ow)) canceled userId ow = Inr ()"
    using assms(2-4) by (simp add: validateStatusTransition_def)
  have "updateOrderStatus oid canceled userId isAdmin db =
      (Inr ((order ow)\<lparr>status := canceled\<rparr>),
       db\<lparr>orders := map (\<lambda>x. if orderId x = oid then x\<lparr>status := canceled\<rparr> else x)
                       (orders db)\<rparr>)"
    using assms(3) v
    by (simp add: updateOrderStatus_validated [OF assms(1)] orderUpdate_found [OF f]
        applyOrderUpdate_statusOnly)
  then show ?thesis
    using f by (simp add: find_map_upd)
qed

theorem buyer_cancels_pending_by_status_witness:
  "orderFindById (shopDb ''bea'' pending) 1 =
     Some \<lparr> order = \<lparr> orderId = 1, buyerId = ''bea'', productId = ''p1'', quantity = 2,
                      totalPrice = 20, status = pending, shippingAddress = None \<rparr>,
            product = \<lparr> sellerId = ''sam'', price = 10, stock = 3, isActive = True \<rparr> \<rparr>
   \<and> fst (updateOrderStatus 1 canceled ''bea'' False (shopDb ''bea'' pending)) =
       Inr \<lparr> orderId = 1, buyerId = ''bea'', productId = ''p1'', quantity = 2,
             totalPrice = 20, status = canceled, shippingAddress = None \<rparr>
   \<and> find (\<lambda>r. orderId r = 1)
        (orders (snd (updateOrderStatus 1 canceled ''bea'' False (shopDb ''bea'' pending)))) =
       Some \<lparr> orderId = 1, buyerId = ''bea'', productId = ''p1'', quantity = 2,
              totalPrice = 20, status = canceled, shippingAddress = None \<rparr>"
  using buyer_cancels_pending_by_status [of "shopDb ''bea'' pending" 1
      "\<lparr> order = \<lparr> orderId = 1, buyerId = ''bea'', productId = ''p1'', quantity = 2,
                      totalPrice = 20, status = pending, shippingAddress = None \<rparr>,
            product = \<lparr> sellerId = ''sam'', price = 10, stock = 3, isActive = True \<rparr> \<rparr>"
      "''bea''" False]
  by (simp add: shopDb_def orderFindById_def)

text \<open>
  C5 as stated fails twice. A buyer who is also the product's seller is refused by the
  seller's role check. And where the call succeeds, \<open>updateOrderStatus\<close> writes the
  status only: the stock of the product stays at 3, where \<open>cancelOrder\<close> on the same
  order puts it back to 5.
\<close>

theorem buyer_cancels_pending_by_status_counterexample:
  "updateOrderStatus 1 canceled ''sam'' False (shopDb ''sam'' pending) =
     (Inl SellersCanOnly, shopDb ''sam'' pending)
   \<and> updateOrderStatus 1 canceled ''bea'' False (shopDb ''bea'' pending) =
     (Inr \<lparr> orderId = 1, buyerId = ''bea'', productId = ''p1'', quantity = 2,
            totalPrice = 20, status = canceled, shippingAddress = None \<rparr>,
      shopDb ''bea'' canceled)
   \<and> products (shopDb ''bea'' canceled) ''p1'' =
       Some \<lparr> sellerId = ''sam'', price = 10, stock = 3, isActive = True \<rparr>
   \<and> products (snd (cancelOrder 1 ''bea'' False (shopDb ''bea'' pending))) ''p1'' =
       Some \<lparr> sellerId = ''sam'', price = 10, stock = 5, isActive = True \<rparr>"
  by (simp add: updateOrderStatus_def cancelOrder_def orderFindById_def
      validateStatusTransition_def orderUpdate_def applyOrderUpdate_statusOnly
      updateProduct_admin shopDb_def)

text \<open>
  C6. For the buyer, the seller or an admin, \<open>cancelOrder\<close> succeeds exactly on a
  pending order: the order's status becomes canceled and the product's stock grows by
  the order's quantity. On any other status it throws 'Only pending orders can be
  canceled' and changes nothing.
\<close>

theorem cancelOrder_pending_only:
  assumes "orderFindById db oid = Some ow"
    and "isAdmin \<or> userId = buyerId (order ow) \<or> userId = sellerId (product ow)"
  shows "(status (order ow) = pending \<longrightarrow>
            cancelOrder oid userId isAdmin db =
              (Inr ((order ow)\<lparr>status := canceled\<rparr>),
               db\<lparr>orders := map (\<lambda>x. if orderId x = oid then x\<lparr>status := canceled\<rparr> else x)
                               (orders db),
                  products := (products db)(productId (order ow) \<mapsto>
                     (product ow)\<lparr>stock := stock (product ow) + quantity (order ow)\<rparr>)\<rparr>)
            \<and> orderFindById (snd (cancelOrder oid userId isAdmin db)) oid =
                Some \<lparr> order = (order ow)\<lparr>status := canceled\<rparr>,
                       product = (product ow)\<lparr>stock := stock (product ow) + quantity (order ow)\<rparr> \<rparr>)
       \<and> (status (order ow) \<noteq> pending \<longrightarrow>
            cancelOrder oid userId isAdmin db = (Inl OnlyPendingCanBeCanceled, db))"
proof -
  from assms(1) have f: "find (\<lambda>r. orderId r = oid) (orders db) = Some (order ow)"
    and p: "products db (productId (order ow)) = Some (product ow)"
    by (simp_all add: orderFindById_Some)
  have run: "cancelOrder oid userId isAdmin db =
      (Inr ((order ow)\<lparr>status := canceled\<rparr>),
       db\<lparr>orders := map (\<lambda>x. if orderId x = oid then x\<lparr>status := canceled\<rparr> else x) (orders db),
          products := (products db)(productId (order ow) \<mapsto>
             (product ow)\<lparr>stock := stock (product ow) + quantity (order ow)\<rparr>)\<rparr>)"
    if "status (order ow) = pending"
    using that assms f p
    by (auto simp: cancelOrder_def orderUpdate_found applyOrderUpdate_statusOnly
        updateProduct_admin)
  have look: "orderFindById (snd (cancelOrder oid userId isAdmin db)) oid =
      Some \<lparr> order = (order ow)\<lparr>status := canceled\<rparr>,
             product = (product ow)\<lparr>stock := stock (product ow) + quantity (order ow)\<rparr> \<rparr>"
    if "status (order ow) = pending"
    using f by (simp add: run [OF that] orderFindById_def find_map_upd)
  have stop: "cancelOrder oid userId isAdmin db = (Inl OnlyPendingCanBeCanceled, db)"
    if "status (order ow) \<noteq> pending"
    using that assms by (auto simp: cancelOrder_def)
  from run look stop show ?thesis by blast
qed

text \<open>
  The buyer cancels the pending order of two pieces: the stock goes from 3 back to 5.
  The seller cannot cancel it once it is processing.
\<close>

theorem cancelOrder_pending_only_witness:
  "orderFindById (shopDb ''bea'' pending) 1 =
     Some \<lparr> order = \<lparr> orderId = 1, buyerId = ''bea'', productId = ''p1'', quantity = 2,
                      totalPrice = 20, status = pending, shippingAddress = None \<rparr>,
            product = \<lparr> sellerId = ''sam'', price = 10, stock = 3, isActive = True \<rparr> \<rparr>
   \<and> cancelOrder 1 ''bea'' False (shopDb ''bea'' pending) =
       (Inr \<lparr> orderId = 1, buyerId = ''bea'', productId = ''p1'', quantity = 2,
              totalPrice = 20, status = canceled, shippingAddress = None \<rparr>,
        \<lparr> products = [''p1'' \<mapsto> \<lparr> sellerId = ''sam'', price = 10, stock = 5, isActive = True \<rparr>],
          orders = [\<lparr> orderId = 1, buyerId = ''bea'', productId = ''p1'', quantity = 2,
                      totalPrice = 20, status = canceled, shippingAddress = None \<rparr>] \<rparr>)
   \<and> cancelOrder 1 ''sam'' False (shopDb ''bea'' processing) =
       (Inl OnlyPendingCanBeCanceled, shopDb ''bea'' processing)"
  using cancelOrder_pending_only [of "shopDb ''bea'' pending" 1
      "\<lparr> order = \<lparr> orderId = 1, buyerId = ''bea'', productId = ''p1'', quantity = 2,
                      totalPrice = 20, status = pending, shippingAddress = None \<rparr>,
            product = \<lparr> sellerId = ''sam'', price = 10, stock = 3, isActive = True \<rparr> \<rparr>"
      False "''bea''"]
    cancelOrder_pending_only [of "shopDb ''bea'' processing" 1
      "\<lparr> order = \<lparr> orderId = 1, buyerId = ''bea'', productId = ''p1'', quantity = 2,
                      totalPrice = 20, status = processing, shippingAddress = None \<rparr>,
            product = \<lparr> sellerId = ''sam'', price = 10, stock = 3, isActive = True \<rparr> \<rparr>"
      False "''sam''"]
  by (simp add: shopDb_def orderFindById_def)

section \<open>Ranking adjustments\<close>





section \<open>Engagement and its ranking side effect\<close>

text \<open>
  C7. In each of the five engagement operations, once the primary mutation goes through
  (the like is new, the like to remove exists, the comment text is not blank, the comment
  to delete exists and the caller may delete it, a share always), the operation returns
  that mutation's result and the engagement table holds it, for every ranking service:
  one that throws on every call included. A failure of the ranking adjustment never
  fails the operation.
\<close>

theorem ranking_failure_never_fails_engagement:
  "(findUserEngagement (engagements w) userId contentId Like = None \<longrightarrow>
      (let made = engagementCreate
                    \<lparr> ce_userId = userId, ce_contentId = contentId,
                      ce_contentType = contentType, ce_type = Like,
                      ce_comment = None, ce_parentId = None \<rparr> (engagements w)
       in fst (createLike rs userId contentId contentType owner w) = Inr (fst made)
          \<and> engagements (snd (createLike rs userId contentId contentType owner w)) = snd made))
   \<and> (\<forall>l. findUserEngagement (engagements w) userId contentId Like = Some l \<longrightarrow>
        fst (removeLike rs userId contentId owner w) = Inr ()
        \<and> engagements (snd (removeLike rs userId contentId owner w)) =
            filter (\<lambda>x. e_id x \<noteq> e_id l) (engagements w))
   \<and> (\<not> (body = [] \<or> length (trim body) = 0) \<longrightarrow>
      (let made = engagementCreate
                    \<lparr> ce_userId = userId, ce_contentId = contentId,
                      ce_contentType = contentType, ce_type = Comment,
                      ce_comment = Some body, ce_parentId = parentId \<rparr> (engagements w)
       in fst (createComment rs userId contentId contentType body parentId owner w) =
            Inr (fst made)
          \<and> engagements (snd (createComment rs userId contentId contentType body parentId
               owner w)) = snd made))
   \<and> (\<forall>c. engagementFindById (engagements w) commentId = Some c
          \<and> (isAdmin \<or> e_userId c = userId) \<longrightarrow>
        fst (deleteComment rs commentId userId isAdmin owner w) = Inr c
        \<and> engagements (snd (deleteComment rs commentId userId isAdmin owner w)) =
            filter (\<lambda>x. e_id x \<noteq> commentId) (engagements w))
   \<and> (let made = engagementCreate
                    \<lparr> ce_userId = userId, ce_contentId = contentId,
                      ce_contentType = contentType, ce_type = Share,
                      ce_comment = None, ce_parentId = None \<rparr> (engagements w)
      in fst (createShare rs userId contentId contentType owner w) = Inr (fst made)
         \<and> engagements (snd (createShare rs userId contentId contentType owner w)) = snd made)"
proof -
  have a: "findUserEngagement (engagements w) userId contentId Like = None \<longrightarrow>
      (let made = engagementCreate
                    \<lparr> ce_userId = userId, ce_contentId = contentId,
                      ce_contentType = contentType, ce_type = Like,
                      ce_comment = None, ce_parentId = None \<rparr> (engagements w)
       in fst (createLike rs userId contentId contentType owner w) = Inr (fst made)
          \<and> engagements (snd (createLike rs userId contentId contentType owner w)) = snd made)"
    by (simp add: createLike_def Let_def split: prod.splits)
  have b: "\<forall>l. findUserEngagement (engagements w) userId contentId Like = Some l \<longrightarrow>
        fst (removeLike rs userId contentId owner w) = Inr ()
        \<and> engagements (snd (removeLike rs userId contentId owner w)) =
            filter (\<lambda>x. e_id x \<noteq> e_id l) (engagements w)"
  proof (intro allI impI)
    fix l assume l: "findUserEngagement (engagements w) userId contentId Like = Some l"
    then obtain e where e: "find (\<lambda>x. e_id x = e_id l) (engagements w) = Some e"
      unfolding findUserEngagement_def by (blast dest: find_Some_id)
    show "fst (removeLike rs userId contentId owner w) = Inr ()
        \<and> engagements (snd (removeLike rs userId contentId owner w)) =
            filter (\<lambda>x. e_id x \<noteq> e_id l) (engagements w)"
      by (simp add: removeLike_def l engagementDelete_found [OF e])
  qed
  have c: "\<not> (body = [] \<or> length (trim body) = 0) \<longrightarrow>
      (let made = engagementCreate
                    \<lparr> ce_userId = userId, ce_contentId = contentId,
                      ce_contentType = contentType, ce_type = Comment,
                      ce_comment = Some body, ce_parentId = parentId \<rparr> (engagements w)
       in fst (createComment rs userId contentId contentType body parentId owner w) =
            Inr (fst made)
          \<and> engagements (snd (createComment rs userId contentId contentType body parentId
               owner w)) = snd made)"
    by (simp add: createComment_def Let_def split: prod.splits)
  have d: "\<forall>c. engagementFindById (engagements w) commentId = Some c
          \<and> (isAdmin \<or> e_userId c = userId) \<longrightarrow>
        fst (deleteComment rs commentId userId isAdmin owner w) = Inr c
        \<and> engagements (snd (deleteComment rs commentId userId isAdmin owner w)) =
            filter (\<lambda>x. e_id x \<noteq> commentId) (engagements w)"
  proof (intro allI impI)
    fix c assume c: "engagementFindById (engagements w) commentId = Some c
          \<and> (isAdmin \<or> e_userId c = userId)"
    then have f: "find (\<lambda>e. e_id e = commentId) (engagements w) = Some c"
      by (simp add: engagementFindById_def)
    show "fst (deleteComment rs commentId userId isAdmin owner w) = Inr c
        \<and> engagements (snd (deleteComment rs commentId userId isAdmin owner w)) =
            filter (\<lambda>x. e_id x \<noteq> commentId) (engagements w)"
      using c by (auto simp: deleteComment_def engagementDelete_found [OF f])
  qed
  have e: "let made = engagementCreate
                    \<lparr> ce_userId = userId, ce_contentId = contentId,
                      ce_contentType = contentType, ce_type = Share,
                      ce_comment = None, ce_parentId = None \<rparr> (engagements w)
      in fst (createShare rs userId contentId contentType owner w) = Inr (fst made)
         \<and> engagements (snd (createShare rs userId contentId contentType owner w)) = snd made"
    by (simp add: createShare_def Let_def split: prod.splits)
  show ?thesis
    by (rule conjI [OF a conjI [OF b conjI [OF c conjI [OF d e]]]])
qed

text \<open>
  A ranking service that is down (every call throws) changes no outcome: Cy's like, Al's
  unlike, Cy's comment, Al's deletion of his comment and Cy's share all return their row.
\<close>

theorem ranking_failure_never_fails_engagement_witness:
  "findUserEngagement (engagements feedWorld) ''cy'' ''post1'' Like = None
   \<and> fst (failingRanking ''bo'' like 1 (rankingDb feedWorld)) = Inl RecordNotFound
   \<and> fst (createLike failingRanking ''cy'' ''post1'' ''Post'' (Some ''bo'') feedWorld) =
       Inr \<lparr> e_id = 3, e_userId = ''cy'', e_contentId = ''post1'', e_contentType = ''Post'',
             e_type = Like, e_comment = None, e_parentId = None \<rparr>
   \<and> fst (removeLike failingRanking ''al'' ''post1'' (Some ''bo'') feedWorld) = Inr ()
   \<and> fst (createComment failingRanking ''cy'' ''post1'' ''Post'' ''hi'' None (Some ''bo'')
         feedWorld) =
       Inr \<lparr> e_id = 3, e_userId = ''cy'', e_contentId = ''post1'', e_contentType = ''Post'',
             e_type = Comment, e_comment = Some ''hi'', e_parentId = None \<rparr>
   \<and> fst (deleteComment failingRanking 2 ''al'' False (Some ''bo'') feedWorld) =
       Inr \<lparr> e_id = 2, e_userId = ''al'', e_contentId = ''post1'', e_contentType = ''Post'',
             e_type = Comment, e_comment = Some ''nice'', e_parentId = None \<rparr>
   \<and> fst (createShare failingRanking ''cy'' ''post1'' ''Post'' (Some ''bo'') feedWorld) =
       Inr \<lparr> e_id = 3, e_userId = ''cy'', e_contentId = ''post1'', e_contentType = ''Post'',
             e_type = Share, e_comment = None, e_parentId = None \<rparr>"
  using ranking_failure_never_fails_engagement [where w = feedWorld and userId = "''cy''"
      and contentId = "''post1''" and rs = failingRanking and contentType = "''Post''"
      and owner = "Some ''bo''" and body = "''hi''" and parentId = None and commentId = 2
      and isAdmin = False]
    ranking_failure_never_fails_engagement [where w = feedWorld and userId = "''al''"
      and contentId = "''post1''" and rs = failingRanking and contentType = "''Post''"
      and owner = "Some ''bo''" and body = "''hi''" and parentId = None and commentId = 2
      and isAdmin = False]
  by (simp add: feedWorld_def failingRanking_def findUserEngagement_def engagementFindById_def
      engagementCreate_def newId_def trim_def isWhiteSpace_def isWhiteSpace2_def
      isWhiteSpace3_def Let_def)

text \<open>
  C8 (as amended). Let A and B be distinct users, A not yet have liked the content, and
  B's content score s (0 for a pair with no row) be such that s and s + 1 are both finite
  doubles, so that the two additions are exact. A's \<open>createLike\<close> with B as the content
  owner succeeds and, B's id being a non-empty string, raises B's content score to s + 1;
  A's \<open>removeLike\<close> right after it succeeds and B's content score is s again, in a row
  that exists from then on; the engagement table is back to what it was.
\<close>

theorem like_unlike_round_trip:
  assumes "userId \<noteq> ownerId"
    and "findUserEngagement (engagements w) userId contentId Like = None"
    and "isDouble (scoreOf (rankingDb w) ownerId ''content'')"
    and "isDouble (scoreOf (rankingDb w) ownerId ''content'' + 1)"
  shows "let liked = createLike applyPostEngagementRankingF64 userId contentId contentType
                       (Some ownerId) w;
             unliked = removeLike applyPostEngagementRankingF64 userId contentId (Some ownerId)
                       (snd liked)
         in (\<exists>row. fst liked = Inr row)
            \<and> fst unliked = Inr ()
            \<and> (ownerId \<noteq> [] \<longrightarrow>
                 scoreOf (rankingDb (snd liked)) ownerId ''content'' =
                   scoreOf (rankingDb w) ownerId ''content'' + 1)
            \<and> scoreOf (rankingDb (snd unliked)) ownerId ''content'' =
                 scoreOf (rankingDb w) ownerId ''content''
            \<and> (ownerId \<noteq> [] \<longrightarrow>
                 (\<exists>r. findRanking (rankingDb (snd unliked)) ownerId ''content'' = Some r))
            \<and> engagements (snd unliked) = engagements w"
proof -
  define s where "s = scoreOf (rankingDb w) ownerId ''content''"
  from assms(3,4) have exact: "roundDouble s = s" "roundDouble (s + 1) = s + 1"
    by (simp_all add: isDouble_def s_def)
  define row where "row =
    \<lparr> e_id = newId (map e_id (engagements w)), e_userId = userId, e_contentId = contentId,
      e_contentType = contentType, e_type = Like, e_comment = None, e_parentId = None \<rparr>"
  define w1 where "w1 = rankContentOwner applyPostEngagementRankingF64 (Some ownerId) userId
      like 1 (w\<lparr>engagements := engagements w @ [row]\<rparr>)"
  define w2 where "w2 = rankContentOwner applyPostEngagementRankingF64 (Some ownerId) userId
      like (- 1) (w1\<lparr>engagements := engagements w\<rparr>)"
  have liked: "createLike applyPostEngagementRankingF64 userId contentId contentType
      (Some ownerId) w = (Inr row, w1)"
    using assms(2) by (simp add: createLike_def engagementCreate_def row_def w1_def Let_def)
  have es1: "engagements w1 = engagements w @ [row]"
    by (simp add: w1_def)
  have found: "findUserEngagement (engagements w1) userId contentId Like = Some row"
    using assms(2) by (simp add: es1 findUserEngagement_def find_app row_def)
  have byId: "find (\<lambda>e. e_id e = e_id row) (engagements w1) = Some row"
    by (simp add: es1 find_app row_def find_newId_None)
  have left: "filter (\<lambda>x. e_id x \<noteq> e_id row) (engagements w1) = engagements w"
    by (simp add: es1 row_def filter_newId)
  have unliked: "removeLike applyPostEngagementRankingF64 userId contentId (Some ownerId) w1 =
      (Inr (), w2)"
    by (simp add: removeLike_def found engagementDelete_found [OF byId] left w2_def)
  have es2: "engagements w2 = engagements w"
    by (simp add: w2_def)
  have r1: "rankingDb w1 =
      (if ownerId \<noteq> [] then snd (applyPostEngagementRankingF64 ownerId like 1 (rankingDb w))
       else rankingDb w)"
    using assms(1) by (simp add: w1_def rankContentOwner_def truthy_def)
  have r2: "rankingDb w2 =
      (if ownerId \<noteq> [] then snd (applyPostEngagementRankingF64 ownerId like (- 1) (rankingDb w1))
       else rankingDb w1)"
    using assms(1) by (simp add: w2_def rankContentOwner_def truthy_def)
  have s_case: "s = (case rankingDb w (ownerId, ''content'') of None \<Rightarrow> 0 | Some r \<Rightarrow> score r)"
    by (simp add: s_def scoreOf_def findRanking_def)
  have up: "scoreOf (rankingDb w1) ownerId ''content'' = s + 1" if "ownerId \<noteq> []"
  proof -
    have "scoreOf (rankingDb w1) ownerId ''content'' =
        (case rankingDb w (ownerId, ''content'') of
           None \<Rightarrow> 1
         | Some r \<Rightarrow> roundDouble (score r + 1))"
      using that by (simp add: r1 scoreOf_likeF64 roundDouble_unit split: option.splits)
    also have "\<dots> = s + 1"
      using exact by (simp add: s_case split: option.splits)
    finally show ?thesis .
  qed
  have down: "scoreOf (rankingDb w2) ownerId ''content'' = s"
  proof (cases "ownerId = []")
    case True
    then show ?thesis by (simp add: r1 r2 s_def)
  next
    case False
    obtain r where r: "rankingDb w1 (ownerId, ''content'') = Some r"
      using row_after_likeF64 [of ownerId like 1 "rankingDb w"] False
      by (auto simp: r1 findRanking_def)
    with up [OF False] have "score r = s + 1"
      by (simp add: scoreOf_def findRanking_def)
    with r False exact show ?thesis
      by (simp add: r2 scoreOf_likeF64 roundDouble_unit)
  qed
  have stays: "\<exists>r. findRanking (rankingDb w2) ownerId ''content'' = Some r" if "ownerId \<noteq> []"
    using that row_after_likeF64 [of ownerId like "- 1" "rankingDb w1"] by (simp add: r2)
  show ?thesis
    using up down stays by (simp add: liked unliked es2 s_def)
qed

text \<open>
  Al likes Bo's post and takes the like back: Bo's content score, 7 before, is 8 in
  between and 7 after.
\<close>

theorem like_unlike_round_trip_witness:
  "isDouble (scoreOf (rankingDb sevenWorld) ''bo'' ''content'')
   \<and> isDouble (scoreOf (rankingDb sevenWorld) ''bo'' ''content'' + 1)
   \<and> fst (createLike applyPostEngagementRankingF64 ''al'' ''post1'' ''Post'' (Some ''bo'')
         sevenWorld) =
     Inr \<lparr> e_id = 1, e_userId = ''al'', e_contentId = ''post1'', e_contentType = ''Post'',
           e_type = Like, e_comment = None, e_parentId = None \<rparr>
   \<and> scoreOf (rankingDb (snd (createLike applyPostEngagementRankingF64 ''al'' ''post1''
         ''Post'' (Some ''bo'') sevenWorld))) ''bo'' ''content'' = 8
   \<and> scoreOf (rankingDb (snd (removeLike applyPostEngagementRankingF64 ''al'' ''post1''
         (Some ''bo'')
         (snd (createLike applyPostEngagementRankingF64 ''al'' ''post1'' ''Post'' (Some ''bo'')
            sevenWorld))))) ''bo'' ''content'' = 7"
proof -
  have s: "scoreOf (rankingDb sevenWorld) ''bo'' ''content'' = 7"
    by (simp add: sevenWorld_def scoreOf_def findRanking_def)
  have d7: "isDouble 7" and d8: "isDouble (7 + 1)"
    by (simp_all add: isDouble_def roundDouble_def roundHalfEven_def pow2_def Let_def)
  have none: "findUserEngagement (engagements sevenWorld) ''al'' ''post1'' Like = None"
    by (simp add: sevenWorld_def findUserEngagement_def)
  have ne: "''al'' \<noteq> ''bo''"
    by simp
  have made: "fst (createLike applyPostEngagementRankingF64 ''al'' ''post1'' ''Post''
      (Some ''bo'') sevenWorld) =
     Inr \<lparr> e_id = 1, e_userId = ''al'', e_contentId = ''post1'', e_contentType = ''Post'',
           e_type = Like, e_comment = None, e_parentId = None \<rparr>"
    by (simp add: createLike_def findUserEngagement_def engagementCreate_def newId_def
        sevenWorld_def Let_def)
  show ?thesis
    using like_unlike_round_trip [OF ne none, where contentType = "''Post''"] d7 d8 made
    by (simp add: s Let_def)
qed

text \<open>
  C8 as stated fails. Bo's content score is 0.1 (the double 3602879701896397 / 2^55).
  Al's like makes it the double nearest to 1.1, and taking the like back leaves
  0.10000000000000009 (225179981368525 / 2^51), not 0.1: the first addition rounds.
\<close>

theorem like_unlike_round_trip_counterexample:
  "scoreOf (rankingDb tenthWorld) ''bo'' ''content'' = roundDouble (1 / 10)
   \<and> fst (createLike applyPostEngagementRankingF64 ''al'' ''post1'' ''Post'' (Some ''bo'')
         tenthWorld) =
     Inr \<lparr> e_id = 1, e_userId = ''al'', e_contentId = ''post1'', e_contentType = ''Post'',
           e_type = Like, e_comment = None, e_parentId = None \<rparr>
   \<and> scoreOf (rankingDb (snd (createLike applyPostEngagementRankingF64 ''al'' ''post1''
         ''Post'' (Some ''bo'') tenthWorld))) ''bo'' ''content'' =
       2476979795053773 / 2251799813685248
   \<and> fst (removeLike applyPostEngagementRankingF64 ''al'' ''post1'' (Some ''bo'')
         (snd (createLike applyPostEngagementRankingF64 ''al'' ''post1'' ''Post'' (Some ''bo'')
            tenthWorld))) = Inr ()
   \<and> scoreOf (rankingDb (snd (removeLike applyPostEngagementRankingF64 ''al'' ''post1''
         (Some ''bo'')
         (snd (createLike applyPostEngagementRankingF64 ''al'' ''post1'' ''Post'' (Some ''bo'')
            tenthWorld))))) ''bo'' ''content'' =
       225179981368525 / 2251799813685248
   \<and> scoreOf (rankingDb (snd (removeLike applyPostEngagementRankingF64 ''al'' ''post1''
         (Some ''bo'')
         (snd (createLike applyPostEngagementRankingF64 ''al'' ''post1'' ''Post'' (Some ''bo'')
            tenthWorld))))) ''bo'' ''content'' \<noteq>
       scoreOf (rankingDb tenthWorld) ''bo'' ''content''"
proof -
  define w1 where "w1 = snd (createLike applyPostEngagementRankingF64 ''al'' ''post1'' ''Post''
      (Some ''bo'') tenthWorld)"
  have tenth: "roundDouble (1 / 10) = 3602879701896397 / 36028797018963968"
    by (simp add: roundDouble_def roundHalfEven_def pow2_def Let_def)
  have up: "addDouble (3602879701896397 / 36028797018963968) 1 =
      2476979795053773 / 2251799813685248"
    by (simp add: addDouble_def roundDouble_def roundHalfEven_def pow2_def Let_def)
  have down: "addDouble (2476979795053773 / 2251799813685248) (- 1) =
      225179981368525 / 2251799813685248"
    by (simp add: addDouble_def roundDouble_def roundHalfEven_def pow2_def Let_def)
  have before: "scoreOf (rankingDb tenthWorld) ''bo'' ''content'' =
      3602879701896397 / 36028797018963968"
    by (simp add: tenthWorld_def scoreOf_def findRanking_def)
  have liked: "createLike applyPostEngagementRankingF64 ''al'' ''post1'' ''Post'' (Some ''bo'')
      tenthWorld =
     (Inr \<lparr> e_id = 1, e_userId = ''al'', e_contentId = ''post1'', e_contentType = ''Post'',
            e_type = Like, e_comment = None, e_parentId = None \<rparr>,
      \<lparr> engagements =
          [\<lparr> e_id = 1, e_userId = ''al'', e_contentId = ''post1'', e_contentType = ''Post'',
             e_type = Like, e_comment = None, e_parentId = None \<rparr>],
        rankingDb = [(''bo'', ''content'') \<mapsto>
          \<lparr> rankedUserId = ''bo'', categoryId = ''content'',
            score = 2476979795053773 / 2251799813685248, updatedBy = ''root'' \<rparr>] \<rparr>)"
    by (simp add: createLike_def findUserEngagement_def engagementCreate_def newId_def
        tenthWorld_def Let_def rankContentOwner_def truthy_def
        applyPostEngagementRankingF64_eq adjustRankingF64_eq mulDouble_def
        roundDouble_unit up)
  have made: "fst (createLike applyPostEngagementRankingF64 ''al'' ''post1'' ''Post''
      (Some ''bo'') tenthWorld) =
     Inr \<lparr> e_id = 1, e_userId = ''al'', e_contentId = ''post1'', e_contentType = ''Post'',
           e_type = Like, e_comment = None, e_parentId = None \<rparr>"
    by (simp add: liked)
  have w1: "w1 =
      \<lparr> engagements =
          [\<lparr> e_id = 1, e_userId = ''al'', e_contentId = ''post1'', e_contentType = ''Post'',
             e_type = Like, e_comment = None, e_parentId = None \<rparr>],
        rankingDb = [(''bo'', ''content'') \<mapsto>
          \<lparr> rankedUserId = ''bo'', categoryId = ''content'',
            score = 2476979795053773 / 2251799813685248, updatedBy = ''root'' \<rparr>] \<rparr>"
    by (simp add: w1_def liked)
  have between: "scoreOf (rankingDb w1) ''bo'' ''content'' =
      2476979795053773 / 2251799813685248"
    by (simp add: w1 scoreOf_def findRanking_def)
  have unliked: "removeLike applyPostEngagementRankingF64 ''al'' ''post1'' (Some ''bo'') w1 =
     (Inr (),
      \<lparr> engagements = [],
        rankingDb = [(''bo'', ''content'') \<mapsto>
          \<lparr> rankedUserId = ''bo'', categoryId = ''content'',
            score = 225179981368525 / 2251799813685248, updatedBy = ''root'' \<rparr>] \<rparr>)"
    by (simp add: w1 removeLike_def findUserEngagement_def engagementDelete_def
        rankContentOwner_def truthy_def applyPostEngagementRankingF64_eq adjustRankingF64_eq
        mulDouble_def roundDouble_unit down)
  have after: "scoreOf (rankingDb (snd (removeLike applyPostEngagementRankingF64 ''al''
      ''post1'' (Some ''bo'') w1))) ''bo'' ''content'' = 225179981368525 / 2251799813685248"
    by (simp add: unliked scoreOf_def findRanking_def)
  have gone: "fst (removeLike applyPostEngagementRankingF64 ''al'' ''post1'' (Some ''bo'') w1) =
      Inr ()"
    by (simp add: unliked)
  show ?thesis
    unfolding w1_def [symmetric]
    by (simp add: before tenth made between after gone)
qed

text \<open>
  C10. In each of the five engagement operations, when the content owner is not given or
  is the acting user, the ranking service is not called: the outcome is the same for every
  ranking service and the ranking state is left as it was. In \<open>deleteComment\<close> the owner
  is compared with the caller who deletes, whoever wrote the comment: a caller who may
  delete and is not the owner (an admin, say, deleting a comment its own owner wrote)
  triggers the call with -1 for the owner.
\<close>

theorem self_engagement_never_ranks:
  assumes "owner = None \<or> owner = Some userId"
  shows "createLike rs userId contentId contentType owner w =
           createLike rs' userId contentId contentType owner w
       \<and> rankingDb (snd (createLike rs userId contentId contentType owner w)) = rankingDb w
       \<and> removeLike rs userId contentId owner w = removeLike rs' userId contentId owner w
       \<and> rankingDb (snd (removeLike rs userId contentId owner w)) = rankingDb w
       \<and> createComment rs userId contentId contentType body parentId owner w =
           createComment rs' userId contentId contentType body parentId owner w
       \<and> rankingDb (snd (createComment rs userId contentId contentType body parentId owner w)) =
           rankingDb w
       \<and> deleteComment rs commentId userId isAdmin owner w =
           deleteComment rs' commentId userId isAdmin owner w
       \<and> rankingDb (snd (deleteComment rs commentId userId isAdmin owner w)) = rankingDb w
       \<and> createShare rs userId contentId contentType owner w =
           createShare rs' userId contentId contentType owner w
       \<and> rankingDb (snd (createShare rs userId contentId contentType owner w)) = rankingDb w
       \<and> (\<forall>c ownerId. engagementFindById (engagements w) commentId = Some c
             \<and> (isAdmin \<or> e_userId c = userId) \<and> ownerId \<noteq> [] \<and> ownerId \<noteq> userId \<longrightarrow>
            rankingDb (snd (deleteComment rs commentId userId isAdmin (Some ownerId) w)) =
              snd (rs ownerId comment (- 1) (rankingDb w)))"
proof -
  note self = rankContentOwner_self [OF assms]
  have l: "createLike rs userId contentId contentType owner w =
        createLike rs' userId contentId contentType owner w
      \<and> rankingDb (snd (createLike rs userId contentId contentType owner w)) = rankingDb w"
    by (simp add: createLike_def self split: option.splits prod.splits)
  have u: "removeLike rs userId contentId owner w = removeLike rs' userId contentId owner w
      \<and> rankingDb (snd (removeLike rs userId contentId owner w)) = rankingDb w"
    by (simp add: removeLike_def self split: option.splits prod.splits sum.splits)
  have c: "createComment rs userId contentId contentType body parentId owner w =
        createComment rs' userId contentId contentType body parentId owner w
      \<and> rankingDb (snd (createComment rs userId contentId contentType body parentId owner w)) =
        rankingDb w"
    by (simp add: createComment_def self split: prod.splits)
  have d: "deleteComment rs commentId userId isAdmin owner w =
        deleteComment rs' commentId userId isAdmin owner w
      \<and> rankingDb (snd (deleteComment rs commentId userId isAdmin owner w)) = rankingDb w"
    by (simp add: deleteComment_def self split: option.splits prod.splits sum.splits)
  have s: "createShare rs userId contentId contentType owner w =
        createShare rs' userId contentId contentType owner w
      \<and> rankingDb (snd (createShare rs userId contentId contentType owner w)) = rankingDb w"
    by (simp add: createShare_def self split: prod.splits)
  have a: "\<forall>c ownerId. engagementFindById (engagements w) commentId = Some c
             \<and> (isAdmin \<or> e_userId c = userId) \<and> ownerId \<noteq> [] \<and> ownerId \<noteq> userId \<longrightarrow>
            rankingDb (snd (deleteComment rs commentId userId isAdmin (Some ownerId) w)) =
              snd (rs ownerId comment (- 1) (rankingDb w))"
  proof (intro allI impI)
    fix c ownerId
    assume h: "engagementFindById (engagements w) commentId = Some c
             \<and> (isAdmin \<or> e_userId c = userId) \<and> ownerId \<noteq> [] \<and> ownerId \<noteq> userId"
    then have f: "find (\<lambda>e. e_id e = commentId) (engagements w) = Some c"
      by (simp add: engagementFindById_def)
    show "rankingDb (snd (deleteComment rs commentId userId isAdmin (Some ownerId) w)) =
              snd (rs ownerId comment (- 1) (rankingDb w))"
      using h
      by (auto simp: deleteComment_def engagementDelete_found [OF f] rankContentOwner_other)
  qed
  from l u c d s a show ?thesis by blast
qed

text \<open>
  Al acts on his own post under a ranking service that would give 100 points on any
  call: nobody gets a row. The admin deleting Al's comment on Al's post does trigger the
  call for Al.
\<close>

theorem self_engagement_never_ranks_witness:
  "rankingDb (snd (createLike generousRanking ''al'' ''post2'' ''Post'' (Some ''al'') feedWorld)) =
     Map.empty
   \<and> rankingDb (snd (removeLike generousRanking ''al'' ''post1'' (Some ''al'') feedWorld)) =
     Map.empty
   \<and> rankingDb (snd (createComment generousRanking ''al'' ''post1'' ''Post'' ''hi'' None None
        feedWorld)) = Map.empty
   \<and> rankingDb (snd (deleteComment generousRanking 2 ''al'' False (Some ''al'') feedWorld)) =
     Map.empty
   \<and> rankingDb (snd (createShare generousRanking ''al'' ''post1'' ''Post'' None feedWorld)) =
     Map.empty
   \<and> scoreOf (rankingDb (snd (deleteComment generousRanking 2 ''root'' True (Some ''al'')
        feedWorld))) ''al'' ''content'' = 100"
proof -
  have r: "rankingDb feedWorld = Map.empty"
    by (simp add: feedWorld_def)
  have f: "engagementFindById (engagements feedWorld) 2 =
      Some \<lparr> e_id = 2, e_userId = ''al'', e_contentId = ''post1'', e_contentType = ''Post'',
             e_type = Comment, e_comment = Some ''nice'', e_parentId = None \<rparr>"
    by (simp add: feedWorld_def engagementFindById_def)
  have own: "Some ''al'' = None \<or> Some ''al'' = Some ''al''"
    by simp
  have none: "None = None \<or> None = Some u" for u :: string
    by simp
  have c1: "rankingDb (snd (createLike generousRanking ''al'' ''post2'' ''Post'' (Some ''al'')
      feedWorld)) = rankingDb feedWorld"
    using self_engagement_never_ranks [OF own, where rs = generousRanking
        and rs' = failingRanking and contentId = "''post2''" and contentType = "''Post''"
        and w = feedWorld]
    by blast
  have c2: "rankingDb (snd (removeLike generousRanking ''al'' ''post1'' (Some ''al'')
      feedWorld)) = rankingDb feedWorld"
    using self_engagement_never_ranks [OF own, where rs = generousRanking
        and rs' = failingRanking and contentId = "''post1''" and w = feedWorld]
    by blast
  have c3: "rankingDb (snd (createComment generousRanking ''al'' ''post1'' ''Post'' ''hi''
      None None feedWorld)) = rankingDb feedWorld"
    using self_engagement_never_ranks [OF none, where rs = generousRanking
        and rs' = failingRanking and userId = "''al''" and contentId = "''post1''"
        and contentType = "''Post''" and body = "''hi''" and parentId = None and w = feedWorld]
    by blast
  have c4: "rankingDb (snd (deleteComment generousRanking 2 ''al'' False (Some ''al'')
      feedWorld)) = rankingDb feedWorld"
    using self_engagement_never_ranks [OF own, where rs = generousRanking
        and rs' = failingRanking and commentId = 2 and isAdmin = False and w = feedWorld]
    by blast
  have c5: "rankingDb (snd (createShare generousRanking ''al'' ''post1'' ''Post'' None
      feedWorld)) = rankingDb feedWorld"
    using self_engagement_never_ranks [OF none, where rs = generousRanking
        and rs' = failingRanking and userId = "''al''" and contentId = "''post1''"
        and contentType = "''Post''" and w = feedWorld]
    by blast
  have c6: "rankingDb (snd (deleteComment generousRanking 2 ''root'' True (Some ''al'')
      feedWorld)) = snd (generousRanking ''al'' comment (- 1) (rankingDb feedWorld))"
    using self_engagement_never_ranks [OF none, where rs = generousRanking
        and rs' = failingRanking and userId = "''root''" and commentId = 2 and isAdmin = True
        and w = feedWorld] f
    by simp
  show ?thesis
    by (simp add: c1 c2 c3 c4 c5 c6 r generousRanking_def scoreOf_def findRanking_def)
qed

end
